theory Spec2Isabelle
  imports Main "HOL-Library.Word" "HOL-Library.Multiset"
begin

section \<open>Data\<close>

text \<open>
  Text typed by the user (a note's title and body) is a JavaScript string: a sequence of
  UTF-16 code units, which is what \<^verbatim>\<open>length\<close> counts and \<^verbatim>\<open>trim\<close> inspects. Texts
  written in the program itself (labels, messages, URLs) and the service's note ids are
  ASCII and are kept as HOL strings.
\<close>

type_synonym js_text = "16 word list"

text \<open>A JavaScript error object: its \<^verbatim>\<open>name\<close> and its \<^verbatim>\<open>message\<close>.\<close>

datatype error = JsError (err_name: string) (err_message: string)

text \<open>\<^verbatim>\<open>new Error(msg)\<close>\<close>

definition new_Error :: "string \<Rightarrow> error" where
  "new_Error msg = JsError ''Error'' msg"

text \<open>
  A note as the service lists it. \<^verbatim>\<open>createdAt\<close> is the instant of creation (the
  service sends an ISO timestamp, which the program only hands on to \<^verbatim>\<open>Date\<close>); it is
  kept as the number of milliseconds it denotes.
\<close>

record Note =
  note_id :: string
  note_title :: js_text
  note_body :: js_text
  createdAt :: nat
  archived :: bool

text \<open>
  The argument of a Gateway operation: the object \<^verbatim>\<open>{title, body}\<close> of a creation, or a
  note id.
\<close>

datatype noteData = NewNote js_text js_text | NoteId string

text \<open>What a template literal makes of the argument inside a URL.\<close>

fun to_url_part :: "noteData \<Rightarrow> string" where
  "to_url_part (NoteId i) = i"
| "to_url_part (NewNote t b) = ''[object Object]''"

section \<open>The network\<close>

text \<open>
  The body of a response, as \<^verbatim>\<open>const { data } = await response.json()\<close> sees it:
  either reading it throws (the text is not JSON, or it decodes to \<^verbatim>\<open>null\<close>, which cannot
  be destructured) with the engine's error, or it decodes to a value whose \<^verbatim>\<open>data\<close>
  property is absent (\<open>None\<close>, JavaScript's \<^verbatim>\<open>undefined\<close>) or is the array of notes of
  the service's contract.
\<close>

datatype body = Unreadable error | Decoded "Note list option"

record response =
  status :: nat
  resp_body :: body

text \<open>
  The options of a request: \<^verbatim>\<open>method\<close> (absent for a read), \<^verbatim>\<open>headers\<close>, and
  \<^verbatim>\<open>body\<close>, the value that \<^verbatim>\<open>JSON.stringify\<close> is applied to.
\<close>

record options =
  opt_method :: "string option"
  opt_headers :: "(string \<times> string) list"
  opt_body :: "noteData option"

type_synonym request = "string \<times> options"

text \<open>
  What the network does with one request: nothing at all, a failure of the transport
  after so many milliseconds, or a response after so many milliseconds.
\<close>

datatype net = NoResponse | Fails nat error | Responds nat response

text \<open>The remote service and the transport: the fate of every request.\<close>

type_synonym service = "request \<Rightarrow> net"

text \<open>
  The rejection of \<^verbatim>\<open>fetch\<close> when its signal is aborted. Only the name is inspected by
  the program; the message is the engine's.
\<close>

definition abort_error :: error where
  "abort_error = JsError ''AbortError'' ''signal is aborted without reason''"

text \<open>
  \<^verbatim>\<open>await fetch(url, {signal})\<close> where a timer aborts the signal after \<open>ms\<close>
  milliseconds: whatever arrives earlier than the timer fires is delivered, anything else
  is cut off by the abort.
\<close>

fun fetch_with_signal :: "nat \<Rightarrow> net \<Rightarrow> error + response" where
  "fetch_with_signal ms NoResponse = Inl abort_error"
| "fetch_with_signal ms (Fails t e) = (if t < ms then Inl e else Inl abort_error)"
| "fetch_with_signal ms (Responds t r) = (if t < ms then Inr r else Inl abort_error)"

text \<open>The instant at which such a request is settled, one way or the other.\<close>

fun settle_time :: "nat \<Rightarrow> net \<Rightarrow> nat" where
  "settle_time ms NoResponse = ms"
| "settle_time ms (Fails t e) = min t ms"
| "settle_time ms (Responds t r) = min t ms"

text \<open>\<^verbatim>\<open>const { data } = await response.json()\<close>\<close>

definition response_json_data :: "response \<Rightarrow> error + Note list option" where
  "response_json_data r = (case resp_body r of Unreadable e \<Rightarrow> Inl e | Decoded d \<Rightarrow> Inr d)"

section \<open>The Gateway: NoteApi\<close>

definition BASE_URL :: string where
  "BASE_URL = ''https://notes-api.dicoding.dev/v2''"

text \<open>\<^verbatim>\<open>message.includes(part)\<close>\<close>

fun js_includes :: "string \<Rightarrow> string \<Rightarrow> bool" where
  "js_includes [] part = (part = [])"
| "js_includes (c # cs) part = (take (length part) (c # cs) = part \<or> js_includes cs part)"

text \<open>
  What a call of the Gateway returns: the response itself (for \<^verbatim>\<open>POST\<close> and
  \<^verbatim>\<open>DELETE\<close>) or the \<^verbatim>\<open>data\<close> decoded from its body.
\<close>

datatype fetched = Handle response | Data "Note list option"

text \<open>
  Every Gateway function returns the requests it has issued, in order, and either the
  error it throws (\<open>Inl\<close>) or its value (\<open>Inr\<close>).
\<close>

type_synonym outcome = "request list \<times> (error + fetched)"

definition timeout_ms :: nat where
  "timeout_ms = 5000"

text \<open>The body of the \<^verbatim>\<open>try\<close> block of \<^verbatim>\<open>fetchWithTimeout\<close>.\<close>

definition fetch_body :: "options \<Rightarrow> net \<Rightarrow> error + fetched" where
  "fetch_body opts n =
     (case fetch_with_signal timeout_ms n of
        Inl e \<Rightarrow> Inl e
      | Inr r \<Rightarrow>
          if status r < 200 \<or> status r > 300 then Inl (new_Error ''Something went wrong'')
          else if opt_method opts = Some ''DELETE'' \<or> opt_method opts = Some ''POST''
          then Inr (Handle r)
          else (case response_json_data r of Inl e \<Rightarrow> Inl e | Inr d \<Rightarrow> Inr (Data d)))"

definition fetchWithTimeout :: "string \<Rightarrow> options \<Rightarrow> service \<Rightarrow> outcome" where
  "fetchWithTimeout url opts svc =
     ([(url, opts)],
      (case fetch_body opts (svc (url, opts)) of
         Inl e \<Rightarrow>
           if err_name e = ''AbortError''
           then Inl (new_Error ''Error: Request took longer than 5 seconds'')
           else Inl e
       | Inr v \<Rightarrow> Inr v))"

text \<open>
  The \<^verbatim>\<open>try\<close>/\<^verbatim>\<open>catch\<close> that all six operations wrap around their call of
  \<^verbatim>\<open>fetchWithTimeout\<close>.
\<close>

definition rethrow :: "outcome \<Rightarrow> outcome" where
  "rethrow out =
     (case out of
        (reqs, Inl e) \<Rightarrow>
          if js_includes (err_message e) ''Request took longer'' then (reqs, Inl e)
          else (reqs, Inl (new_Error ''Something is error''))
      | (reqs, Inr v) \<Rightarrow> (reqs, Inr v))"

definition no_options :: options where
  "no_options = \<lparr>opt_method = None, opt_headers = [], opt_body = None\<rparr>"

definition json_headers :: "(string \<times> string) list" where
  "json_headers = [(''Content-Type'', ''application/json'')]"

definition getActiveNote :: "service \<Rightarrow> outcome" where
  "getActiveNote svc = rethrow (fetchWithTimeout (BASE_URL @ ''/notes'') no_options svc)"

definition getArchiveNote :: "service \<Rightarrow> outcome" where
  "getArchiveNote svc =
     rethrow (fetchWithTimeout (BASE_URL @ ''/notes/archived'') no_options svc)"

definition archiveNote :: "noteData \<Rightarrow> service \<Rightarrow> outcome" where
  "archiveNote noteId svc =
     rethrow (fetchWithTimeout (BASE_URL @ ''/notes/'' @ to_url_part noteId @ ''/archive'')
       \<lparr>opt_method = Some ''POST'', opt_headers = json_headers, opt_body = None\<rparr> svc)"

definition unarchiveNote :: "noteData \<Rightarrow> service \<Rightarrow> outcome" where
  "unarchiveNote noteId svc =
     rethrow (fetchWithTimeout (BASE_URL @ ''/notes/'' @ to_url_part noteId @ ''/unarchive'')
       \<lparr>opt_method = Some ''POST'', opt_headers = json_headers, opt_body = None\<rparr> svc)"

definition createNote :: "noteData \<Rightarrow> service \<Rightarrow> outcome" where
  "createNote note svc =
     rethrow (fetchWithTimeout (BASE_URL @ ''/notes'')
       \<lparr>opt_method = Some ''POST'', opt_headers = json_headers, opt_body = Some note\<rparr> svc)"

definition deleteNote :: "noteData \<Rightarrow> service \<Rightarrow> outcome" where
  "deleteNote noteId svc =
     rethrow (fetchWithTimeout (BASE_URL @ ''/notes/'' @ to_url_part noteId)
       \<lparr>opt_method = Some ''DELETE'', opt_headers = json_headers, opt_body = None\<rparr> svc)"

section \<open>The Loading-State Presenter: HelperLoading\<close>

text \<open>
  A control (a button): its text, whether the spinner element is inside it, and whether it
  is disabled.
\<close>

record control =
  text_content :: string
  has_spinner :: bool
  disabled :: bool

definition showLoading :: "control \<Rightarrow> control" where
  "showLoading element =
     element\<lparr>text_content := ''Loading'', has_spinner := True, disabled := True\<rparr>"

definition hideLoading :: "control \<Rightarrow> string \<Rightarrow> control" where
  "hideLoading element txt =
     element\<lparr>text_content := txt, has_spinner := False, disabled := False\<rparr>"

section \<open>Events\<close>

text \<open>
  The controls that raise intents: the submit button of the creation form and the buttons
  of the item view of a note (given by the note's id).
\<close>

datatype control_ref =
  SubmitButton | DeleteButton string | ArchiveButton string | UnarchiveButton string

text \<open>
  The four intent events with their \<^verbatim>\<open>detail\<close>; the \<^verbatim>\<open>button\<close> of the detail is \<open>None\<close>
  when it is \<^verbatim>\<open>null\<close>.
\<close>

datatype intent =
    NoteCreated js_text js_text "control_ref option"
  | NoteDeleted string "control_ref option"
  | NoteArchived string "control_ref option"
  | NoteUnarchived string "control_ref option"

text \<open>The two signals of the refresh protocol.\<close>

datatype signal = NotesUpdated "control_ref option" | NotesUpdateComplete

datatype view_id = ActiveView | ArchiveView

text \<open>
  What can be observed of a run, in the order in which it happens: a control made busy or
  idle (with its new label), a request put on the network, a blocking alert, a line on the
  console, a signal dispatched on the document, and the return of a view's fetch function
  during a refresh.
\<close>

datatype event =
    Busy control_ref
  | Idle control_ref string
  | Sent request
  | Alerted string
  | Logged error
  | Dispatched signal
  | Refetched view_id

section \<open>The List Views: ActiveNote and ArchiveNote\<close>

text \<open>The properties that a view sets on the \<^verbatim>\<open>note-item\<close> element it creates.\<close>

record note_item =
  item_id :: string
  item_title :: js_text
  item_date :: nat
  item_content :: js_text
  item_archive :: bool

definition make_item :: "Note \<Rightarrow> note_item" where
  "make_item n =
     \<lparr>item_id = note_id n, item_title = note_title n, item_date = createdAt n,
      item_content = note_body n, item_archive = archived n\<rparr>"

text \<open>
  The shadow tree of a view: the heading, whether the loading placeholder is shown, the
  text of the empty-state placeholder when there is one, and the item views inside the
  \<^verbatim>\<open>notes-container\<close> section when there is such a section.
\<close>

record shadow =
  heading :: string
  loading :: bool
  empty_message :: "string option"
  container :: "note_item list option"

text \<open>A view: its field \<^verbatim>\<open>_notes\<close> and its shadow tree.\<close>

record view =
  view_notes :: fetched
  shadow_root :: shadow

text \<open>
  The errors that the engine throws when \<^verbatim>\<open>_notes\<close> is not an array (the messages are
  the engine's).
\<close>

definition length_of_undefined :: error where
  "length_of_undefined =
     JsError ''TypeError'' ''Cannot read properties of undefined (reading 'length')''"

definition reverse_not_a_function :: error where
  "reverse_not_a_function = JsError ''TypeError'' ''this._notes.reverse is not a function''"

text \<open>\<^verbatim>\<open>renderLoading\<close> of the two views.\<close>

definition renderLoading_active :: "view \<Rightarrow> view" where
  "renderLoading_active v =
     v\<lparr>shadow_root :=
         \<lparr>heading = ''Active Notes'', loading = True, empty_message = None, container = None\<rparr>\<rparr>"

definition renderLoading_archive :: "view \<Rightarrow> view" where
  "renderLoading_archive v =
     v\<lparr>shadow_root :=
         \<lparr>heading = ''Archive Note'', loading = True, empty_message = None, container = None\<rparr>\<rparr>"

text \<open>
  \<^verbatim>\<open>ActiveNote.render\<close>: the view afterwards and the error thrown, if any. The array is
  reversed in place, so \<^verbatim>\<open>_notes\<close> changes too.
\<close>

definition render_active :: "view \<Rightarrow> view \<times> error option" where
  "render_active v =
     (case view_notes v of
        Data (Some ns) \<Rightarrow>
          (v\<lparr>view_notes := Data (Some (rev ns)),
             shadow_root :=
               \<lparr>heading = ''Active Notes'', loading = False,
                empty_message = (if length ns = 0 then Some ''There is no note'' else None),
                container = Some (map make_item (rev ns))\<rparr>\<rparr>, None)
      | Data None \<Rightarrow> (v, Some length_of_undefined)
      | Handle r \<Rightarrow>
          (v\<lparr>shadow_root :=
               \<lparr>heading = ''Active Notes'', loading = False, empty_message = None,
                container = Some []\<rparr>\<rparr>, Some reverse_not_a_function))"

text \<open>\<^verbatim>\<open>ArchiveNote.render\<close> with \<^verbatim>\<open>renderNotes\<close>.\<close>

definition render_archive :: "view \<Rightarrow> view \<times> error option" where
  "render_archive v =
     (case view_notes v of
        Data (Some ns) \<Rightarrow>
          (v\<lparr>shadow_root :=
               \<lparr>heading = ''Archived Notes'', loading = False,
                empty_message = (if length ns = 0 then Some ''There is no note'' else None),
                container = (if length ns > 0 then Some (map make_item ns) else None)\<rparr>\<rparr>, None)
      | Data None \<Rightarrow> (v, Some length_of_undefined)
      | Handle r \<Rightarrow>
          (v\<lparr>shadow_root :=
               \<lparr>heading = ''Archived Notes'', loading = False, empty_message = None,
                container = Some []\<rparr>\<rparr>, None))"

text \<open>
  \<^verbatim>\<open>ActiveNote.fetchNotes\<close>: the requests it issues when called, and the view and the
  events once the call has settled.
\<close>

definition fetchNotes :: "service \<Rightarrow> view \<Rightarrow> request list \<times> view \<times> event list" where
  "fetchNotes svc v =
     (case getActiveNote svc of
        (reqs, Inr x) \<Rightarrow>
          (case render_active (v\<lparr>view_notes := x\<rparr>) of
             (v', None) \<Rightarrow> (reqs, v', [])
           | (v', Some e) \<Rightarrow> (reqs, v', [Alerted (err_message e)]))
      | (reqs, Inl e) \<Rightarrow> (reqs, v, [Alerted (err_message e)]))"

text \<open>\<^verbatim>\<open>ArchiveNote.fetchArchivedNotes\<close>, likewise.\<close>

definition fetchArchivedNotes :: "service \<Rightarrow> view \<Rightarrow> request list \<times> view \<times> event list" where
  "fetchArchivedNotes svc v =
     (case getArchiveNote svc of
        (reqs, Inr x) \<Rightarrow>
          (case render_archive (v\<lparr>view_notes := x\<rparr>) of
             (v', None) \<Rightarrow> (reqs, v', [])
           | (v', Some e) \<Rightarrow> (reqs, v', [Logged e]))
      | (reqs, Inl e) \<Rightarrow> (reqs, v, [Logged e]))"

section \<open>The page\<close>

text \<open>The operations of the Gateway, as the function values that the Coordinator compares.\<close>

datatype operation =
  Op_createNote | Op_deleteNote | Op_archiveNote | Op_unarchiveNote
  | Op_getActiveNote | Op_getArchiveNote

text \<open>
  A call of \<^verbatim>\<open>handleNoteOperation\<close> that is suspended in
  \<^verbatim>\<open>await notifyAndWaitForUpdate(button)\<close>: its one-time listener for
  \<^verbatim>\<open>notes-update-complete\<close> is registered on the document, and what is left of the call
  is determined by its \<^verbatim>\<open>button\<close> and its \<^verbatim>\<open>operation\<close>.
\<close>

type_synonym waiter = "control_ref option \<times> operation"

text \<open>
  The document with one view of each kind: the two views, the views whose listener for
  \<^verbatim>\<open>notes-updated\<close> is registered on the document (in the order of registration), the
  calls that wait for \<^verbatim>\<open>notes-update-complete\<close> (in the order in which their listeners
  were registered), and the controls.
\<close>

record page =
  active :: view
  archive :: view
  listeners :: "view_id list"
  waiting :: "waiter list"
  controls :: "control_ref \<Rightarrow> control"


definition connect_archive :: "service \<Rightarrow> page \<Rightarrow> page \<times> event list" where
  "connect_archive svc p =
     (case fetchArchivedNotes svc (renderLoading_archive (archive p)) of
        (reqs, v, evs) \<Rightarrow>
          (p\<lparr>archive := v, listeners := listeners p @ [ArchiveView]\<rparr>, map Sent reqs @ evs))"

section \<open>The Creation Form: MakeNote\<close>

text \<open>
  The code units that \<^verbatim>\<open>String.prototype.trim\<close> removes: the white space and line
  terminators of ECMAScript (TAB, LF, VT, FF, CR, SP, NBSP, the space separators of
  Unicode, LS, PS and the byte order mark).
\<close>

definition is_js_space :: "16 word \<Rightarrow> bool" where
  "is_js_space c =
     (c = 0x9 \<or> c = 0xA \<or> c = 0xB \<or> c = 0xC \<or> c = 0xD \<or> c = 0x20 \<or> c = 0xA0 \<or>
      c = 0x1680 \<or> (0x2000 \<le> c \<and> c \<le> 0x200A) \<or> c = 0x2028 \<or> c = 0x2029 \<or>
      c = 0x202F \<or> c = 0x205F \<or> c = 0x3000 \<or> c = 0xFEFF)"

definition trim :: "js_text \<Rightarrow> js_text" where
  "trim s = rev (dropWhile is_js_space (rev (dropWhile is_js_space s)))"

text \<open>The decimal digits of a number, as a template literal prints them.\<close>

fun digits :: "nat \<Rightarrow> string" where
  "digits n =
     (if n < 10 then [''0123456789'' ! n] else digits (n div 10) @ [''0123456789'' ! (n mod 10)])"

declare digits.simps [simp del]

definition number_text :: "int \<Rightarrow> string" where
  "number_text i = (if i < 0 then CHR ''-'' # digits (nat (- i)) else digits (nat i))"

definition maxTitleLength :: nat where
  "maxTitleLength = 50"

definition titleMinLength :: nat where
  "titleMinLength = 3"

definition contentMinLength :: nat where
  "contentMinLength = 10"

text \<open>
  The elements of the form that the handlers read and write: the values of the two
  fields, the text of the counter and the texts of the two error paragraphs.
\<close>

record form =
  titleInput :: js_text
  contentInput :: js_text
  charCountSpan :: string
  titleError :: string
  bodyError :: string

definition updateCharacterCount :: "nat \<Rightarrow> form \<Rightarrow> form" where
  "updateCharacterCount currentLength f =
     f\<lparr>charCountSpan :=
         ''Remaining Character: '' @ number_text (int maxTitleLength - int currentLength)\<rparr>"

text \<open>The two validations, run on blur: the form afterwards and the value returned.\<close>

definition validateTitle :: "js_text \<Rightarrow> form \<Rightarrow> form \<times> bool" where
  "validateTitle title f =
     (if length (trim title) < titleMinLength
      then (f\<lparr>titleError := ''Title at least 3 character''\<rparr>, False)
      else (f\<lparr>titleError := ''''\<rparr>, True))"

definition validateContent :: "js_text \<Rightarrow> form \<Rightarrow> form \<times> bool" where
  "validateContent content f =
     (if length (trim content) < contentMinLength
      then (f\<lparr>bodyError := ''Content at least 10 character''\<rparr>, False)
      else (f\<lparr>bodyError := ''''\<rparr>, True))"

text \<open>The listeners for \<^verbatim>\<open>input\<close> and \<^verbatim>\<open>blur\<close> set up by \<^verbatim>\<open>setupEventListeners\<close>.\<close>

definition on_title_input :: "form \<Rightarrow> form" where
  "on_title_input f = updateCharacterCount (length (titleInput f)) f"

definition on_title_blur :: "form \<Rightarrow> form" where
  "on_title_blur f = fst (validateTitle (titleInput f) f)"

definition on_content_blur :: "form \<Rightarrow> form" where
  "on_content_blur f = fst (validateContent (contentInput f) f)"

text \<open>
  \<^verbatim>\<open>handleFormSubmit\<close>: the form afterwards, whether the default action of the submit
  event has been prevented, and the events dispatched. \<^verbatim>\<open>reset()\<close> puts both fields back
  to their default value, which is empty in the markup of \<^verbatim>\<open>render\<close>.
\<close>

record submitted =
  form_after :: form
  default_prevented :: bool
  dispatched :: "intent list"

definition handleFormSubmit :: "form \<Rightarrow> submitted" where
  "handleFormSubmit f =
     \<lparr>form_after = updateCharacterCount 0 (f\<lparr>titleInput := [], contentInput := []\<rparr>),
      default_prevented = True,
      dispatched = [NoteCreated (titleInput f) (contentInput f) (Some SubmitButton)]\<rparr>"

section \<open>The Coordinator\<close>

text \<open>\<^verbatim>\<open>operation.call(NoteApi, noteData)\<close>\<close>

fun call_operation :: "operation \<Rightarrow> noteData \<Rightarrow> service \<Rightarrow> outcome" where
  "call_operation Op_createNote d svc = createNote d svc"
| "call_operation Op_deleteNote d svc = deleteNote d svc"
| "call_operation Op_archiveNote d svc = archiveNote d svc"
| "call_operation Op_unarchiveNote d svc = unarchiveNote d svc"
| "call_operation Op_getActiveNote d svc = getActiveNote svc"
| "call_operation Op_getArchiveNote d svc = getArchiveNote svc"

definition getButttonTextForOperation :: "operation \<Rightarrow> string" where
  "getButttonTextForOperation operation =
     (if operation = Op_createNote then ''Make Note''
      else if operation = Op_deleteNote then ''Delete''
      else if operation = Op_archiveNote then ''Archive''
      else if operation = Op_archiveNote then ''Unarchive''
      else ''Submit'')"

text \<open>
  The rest of \<^verbatim>\<open>handleNoteOperation\<close> after the operation has settled, in either branch:
  the control, if there is one, is made idle with the text that belongs to the operation.
\<close>

definition restore :: "control_ref option \<Rightarrow> operation \<Rightarrow> page \<Rightarrow> page \<times> event list" where
  "restore button operation p =
     (case button of
        None \<Rightarrow> (p, [])
      | Some b \<Rightarrow>
          (let buttonText = getButttonTextForOperation operation
           in (p\<lparr>controls := (controls p)(b := hideLoading (controls p b) buttonText)\<rparr>,
               [Idle b buttonText])))"

text \<open>
  The requests that a view issues when its listener for \<^verbatim>\<open>notes-updated\<close> runs, and the
  instant at which its fetch has settled, counted from the dispatch of the signal.
\<close>

fun refetch_requests :: "service \<Rightarrow> view_id \<Rightarrow> request list" where
  "refetch_requests svc ActiveView = fst (getActiveNote svc)"
| "refetch_requests svc ArchiveView = fst (getArchiveNote svc)"

definition refetch_settles_at :: "service \<Rightarrow> view_id \<Rightarrow> nat" where
  "refetch_settles_at svc v =
     sum_list (map (\<lambda>r. settle_time timeout_ms (svc r)) (refetch_requests svc v))"

text \<open>
  The dispatch of \<^verbatim>\<open>notes-update-complete\<close> on the document: every one-time listener
  registered there runs, in the order of registration, removes itself and resolves its
  promise, and the calls of \<^verbatim>\<open>handleNoteOperation\<close> that awaited these promises go on,
  in the same order, before anything else happens.
\<close>

fun resume :: "waiter list \<Rightarrow> page \<Rightarrow> page \<times> event list" where
  "resume [] p = (p, [])"
| "resume (w # ws) p =
     (case restore (fst w) (snd w) p of
        (p1, evs) \<Rightarrow> (case resume ws p1 of (p2, rest) \<Rightarrow> (p2, evs @ rest)))"

definition notifyUpdateComplete :: "page \<Rightarrow> page \<times> event list" where
  "notifyUpdateComplete p =
     (case resume (waiting p) (p\<lparr>waiting := []\<rparr>) of
        (p', resumed) \<Rightarrow> (p', Dispatched NotesUpdateComplete # resumed))"

text \<open>
  The listeners \<^verbatim>\<open>handleNotesUpdated\<close> of the views, resumed in the order in which their
  fetches settle. The active-set view calls \<^verbatim>\<open>notifyUpdateComplete\<close> when its fetch
  function has returned; the archived-set view dispatches nothing.
\<close>

fun settle_views :: "service \<Rightarrow> view_id list \<Rightarrow> page \<Rightarrow> page \<times> event list" where
  "settle_views svc [] p = (p, [])"
| "settle_views svc (ActiveView # vs) p =
     (case fetchNotes svc (active p) of
        (reqs, v, evs) \<Rightarrow>
          (case notifyUpdateComplete (p\<lparr>active := v\<rparr>) of
             (p1, acknowledged) \<Rightarrow>
               (case settle_views svc vs p1 of
                  (p2, rest) \<Rightarrow> (p2, evs @ Refetched ActiveView # acknowledged @ rest))))"
| "settle_views svc (ArchiveView # vs) p =
     (case fetchArchivedNotes svc (archive p) of
        (reqs, v, evs) \<Rightarrow>
          (case settle_views svc vs (p\<lparr>archive := v\<rparr>) of
             (p2, rest) \<Rightarrow> (p2, evs @ [Refetched ArchiveView] @ rest)))"

text \<open>
  \<^verbatim>\<open>await notifyAndWaitForUpdate(button)\<close> in a call whose rest is \<open>w\<close>: the one-time
  listener is registered, the signal is dispatched, every registered listener starts its
  fetch at once, in the order of registration, and the fetches settle in the order of
  their instants (those of the same instant in the order in which they were started).
  When no view acknowledges, the call stays among the waiting ones of the page.
\<close>

definition notifyAndWaitForUpdate ::
  "control_ref option \<Rightarrow> waiter \<Rightarrow> service \<Rightarrow> page \<Rightarrow> page \<times> event list"
where
  "notifyAndWaitForUpdate button w svc p =
     (case settle_views svc (sort_key (refetch_settles_at svc) (listeners p))
             (p\<lparr>waiting := waiting p @ [w]\<rparr>) of
        (p', evs) \<Rightarrow>
          (p', Dispatched (NotesUpdated button)
                 # concat (map (\<lambda>v. map Sent (refetch_requests svc v)) (listeners p)) @ evs))"

definition handleNoteOperation ::
  "noteData \<Rightarrow> operation \<Rightarrow> control_ref option \<Rightarrow> service \<Rightarrow> page \<Rightarrow> page \<times> event list"
where
  "handleNoteOperation noteData operation button svc p =
     (case call_operation operation noteData svc of
        (reqs, Inr x) \<Rightarrow>
          (case notifyAndWaitForUpdate button (button, operation) svc p of
             (p', evs) \<Rightarrow> (p', map Sent reqs @ evs))
      | (reqs, Inl e) \<Rightarrow>
          (case restore button operation p of
             (p', evs) \<Rightarrow> (p', map Sent reqs @ Alerted (err_message e) # evs)))"

text \<open>
  The four listeners on the document. \<^verbatim>\<open>showLoading\<close> is called on the button without
  a test, so with no button the listener ends there with a TypeError.
\<close>

fun intent_call :: "intent \<Rightarrow> noteData \<times> operation \<times> control_ref option" where
  "intent_call (NoteCreated title body button) = (NewNote title body, Op_createNote, button)"
| "intent_call (NoteDeleted i button) = (NoteId i, Op_deleteNote, button)"
| "intent_call (NoteArchived i button) = (NoteId i, Op_archiveNote, button)"
| "intent_call (NoteUnarchived i button) = (NoteId i, Op_unarchiveNote, button)"

definition on_intent :: "intent \<Rightarrow> service \<Rightarrow> page \<Rightarrow> page \<times> event list" where
  "on_intent i svc p =
     (case intent_call i of
        (noteData, operation, None) \<Rightarrow> (p, [])
      | (noteData, operation, Some b) \<Rightarrow>
          (case handleNoteOperation noteData operation (Some b) svc
                  (p\<lparr>controls := (controls p)(b := showLoading (controls p b))\<rparr>) of
             (p', evs) \<Rightarrow> (p', Busy b # evs)))"

section \<open>Notions used in the statements\<close>

text \<open>The four operations that change the collection; the other two read it.\<close>

definition is_write :: "operation \<Rightarrow> bool" where
  "is_write operation =
     (operation = Op_createNote \<or> operation = Op_deleteNote \<or>
      operation = Op_archiveNote \<or> operation = Op_unarchiveNote)"

text \<open>Nothing has arrived for a request within the time limit.\<close>

fun late :: "net \<Rightarrow> bool" where
  "late NoResponse = True"
| "late (Fails t e) = (timeout_ms < t)"
| "late (Responds t r) = (timeout_ms < t)"

text \<open>The URL and the options that each operation hands to \<^verbatim>\<open>fetchWithTimeout\<close>.\<close>

fun operation_request :: "operation \<Rightarrow> noteData \<Rightarrow> request" where
  "operation_request Op_createNote d =
     (BASE_URL @ ''/notes'',
      \<lparr>opt_method = Some ''POST'', opt_headers = json_headers, opt_body = Some d\<rparr>)"
| "operation_request Op_deleteNote d =
     (BASE_URL @ ''/notes/'' @ to_url_part d,
      \<lparr>opt_method = Some ''DELETE'', opt_headers = json_headers, opt_body = None\<rparr>)"
| "operation_request Op_archiveNote d =
     (BASE_URL @ ''/notes/'' @ to_url_part d @ ''/archive'',
      \<lparr>opt_method = Some ''POST'', opt_headers = json_headers, opt_body = None\<rparr>)"
| "operation_request Op_unarchiveNote d =
     (BASE_URL @ ''/notes/'' @ to_url_part d @ ''/unarchive'',
      \<lparr>opt_method = Some ''POST'', opt_headers = json_headers, opt_body = None\<rparr>)"
| "operation_request Op_getActiveNote d = (BASE_URL @ ''/notes'', no_options)"
| "operation_request Op_getArchiveNote d = (BASE_URL @ ''/notes/archived'', no_options)"

text \<open>Kinds of events: a control made idle, the refresh signal, a message to the user.\<close>

definition is_idle :: "event \<Rightarrow> bool" where
  "is_idle e = (case e of Idle b l \<Rightarrow> True | _ \<Rightarrow> False)"

definition is_refresh_request :: "event \<Rightarrow> bool" where
  "is_refresh_request e = (case e of Dispatched (NotesUpdated b) \<Rightarrow> True | _ \<Rightarrow> False)"

definition is_message :: "event \<Rightarrow> bool" where
  "is_message e = (case e of Alerted m \<Rightarrow> True | Logged x \<Rightarrow> True | _ \<Rightarrow> False)"

text \<open>
  The restorations that a list of waiting calls amounts to, and the events that make a
  given control idle.
\<close>

fun restorations :: "waiter list \<Rightarrow> event list" where
  "restorations [] = []"
| "restorations ((None, operation) # ws) = restorations ws"
| "restorations ((Some b, operation) # ws) =
     Idle b (getButttonTextForOperation operation) # restorations ws"

definition restores :: "control_ref \<Rightarrow> event \<Rightarrow> bool" where
  "restores b e = (case e of Idle c l \<Rightarrow> c = b | _ \<Rightarrow> False)"

text \<open>What has happened before the first control is made idle.\<close>

definition before_idle :: "event list \<Rightarrow> event list" where
  "before_idle evs = takeWhile (\<lambda>e. \<not> is_idle e) evs"

text \<open>The item views that a view shows, and the two orders by date of creation.\<close>

definition rendered_items :: "view \<Rightarrow> note_item list" where
  "rendered_items v = (case container (shadow_root v) of None \<Rightarrow> [] | Some items \<Rightarrow> items)"

definition most_recent_first :: "note_item list \<Rightarrow> bool" where
  "most_recent_first items = sorted_wrt (\<lambda>x y. item_date y \<le> item_date x) items"

definition oldest_first :: "Note list \<Rightarrow> bool" where
  "oldest_first ns = sorted_wrt (\<lambda>x y. createdAt x \<le> createdAt y) ns"

section \<open>Concrete pages and services\<close>

text \<open>A view as its constructor leaves it, and the controls as the templates render them.\<close>

definition new_view :: view where
  "new_view =
     \<lparr>view_notes = Data (Some []),
      shadow_root = \<lparr>heading = '''', loading = False, empty_message = None, container = None\<rparr>\<rparr>"

fun rendered_control :: "control_ref \<Rightarrow> control" where
  "rendered_control SubmitButton =
     \<lparr>text_content = ''Make Note'', has_spinner = False, disabled = False\<rparr>"
| "rendered_control (DeleteButton i) =
     \<lparr>text_content = ''Delete'', has_spinner = False, disabled = False\<rparr>"
| "rendered_control (ArchiveButton i) =
     \<lparr>text_content = ''Archive'', has_spinner = False, disabled = False\<rparr>"
| "rendered_control (UnarchiveButton i) =
     \<lparr>text_content = ''Unarchive'', has_spinner = False, disabled = False\<rparr>"

text \<open>
  A page on which both views listen for the refresh signal, and a page on which the first
  fetch of the active-set view has not settled yet, so that only the archived-set view
  listens.
\<close>

definition page_ready :: page where
  "page_ready =
     \<lparr>active = new_view, archive = new_view, listeners = [ActiveView, ArchiveView],
      waiting = [], controls = rendered_control\<rparr>"

definition page_active_pending :: page where
  "page_active_pending =
     \<lparr>active = renderLoading_active new_view, archive = new_view, listeners = [ArchiveView],
      waiting = [], controls = rendered_control\<rparr>"

definition note_older :: Note where
  "note_older =
     \<lparr>note_id = ''notes-1'', note_title = [0x41], note_body = [0x61], createdAt = 1000,
      archived = False\<rparr>"

definition note_newer :: Note where
  "note_newer =
     \<lparr>note_id = ''notes-2'', note_title = [0x42], note_body = [0x62], createdAt = 2000,
      archived = False\<rparr>"

text \<open>A response that lists notes, with a given status code.\<close>

definition listing :: "nat \<Rightarrow> Note list \<Rightarrow> response" where
  "listing code ns = \<lparr>status = code, resp_body = Decoded (Some ns)\<rparr>"

text \<open>
  Services: one that gives every request the same response after \<open>t\<close> milliseconds, one
  that never answers, and one that answers the list of archived notes later than
  everything else.
\<close>

definition answering :: "nat \<Rightarrow> response \<Rightarrow> service" where
  "answering t r = (\<lambda>req. Responds t r)"

definition silent :: service where
  "silent = (\<lambda>req. NoResponse)"

definition slow_archive :: service where
  "slow_archive =
     (\<lambda>req. if fst req = BASE_URL @ ''/notes/archived''
            then Responds 20 (listing 200 [])
            else Responds 10 (listing 200 [note_older, note_newer]))"


text \<open>
  A response whose body is the plain text \<^verbatim>\<open>Request took longer\<close>, and the error with
  which V8 rejects its decoding.
\<close>

definition marked_syntax_error :: error where
  \<open>marked_syntax_error =
     JsError ''SyntaxError'' ''Unexpected token 'R', "Request took longer" is not valid JSON''\<close>

definition garbled :: response where
  "garbled = \<lparr>status = 200, resp_body = Unreadable marked_syntax_error\<rparr>"

text \<open>The form as \<^verbatim>\<open>render\<close> leaves it, and with the title \<^verbatim>\<open>ab\<close> typed in.\<close>

definition rendered_form :: form where
  "rendered_form =
     \<lparr>titleInput = [], contentInput = [], charCountSpan = ''Remaining Character: 50'',
      titleError = [], bodyError = []\<rparr>"

definition form_ab :: form where
  "form_ab = rendered_form\<lparr>titleInput := [0x61, 0x62]\<rparr>"

section \<open>Facts about the Gateway\<close>

lemmas gateway_defs =
  createNote_def deleteNote_def archiveNote_def unarchiveNote_def getActiveNote_def
  getArchiveNote_def rethrow_def fetchWithTimeout_def fetch_body_def response_json_data_def
  new_Error_def abort_error_def timeout_ms_def no_options_def json_headers_def BASE_URL_def

lemma fst_fetchWithTimeout [simp]: "fst (fetchWithTimeout url opts svc) = [(url, opts)]"
  by (simp add: fetchWithTimeout_def)

lemma fst_rethrow [simp]: "fst (rethrow out) = fst out"
  by (cases out) (auto simp: rethrow_def split: sum.splits)

lemma snd_rethrow:
  "snd (rethrow out) =
     (case snd out of
        Inl e \<Rightarrow> if js_includes (err_message e) ''Request took longer'' then Inl e
                 else Inl (new_Error ''Something is error'')
      | Inr v \<Rightarrow> Inr v)"
  by (cases out) (auto simp: rethrow_def split: sum.splits)

lemma call_operation_request:
  "call_operation operation d svc =
     rethrow (fetchWithTimeout (fst (operation_request operation d))
       (snd (operation_request operation d)) svc)"
  by (cases operation)
     (simp_all add: createNote_def deleteNote_def archiveNote_def unarchiveNote_def
        getActiveNote_def getArchiveNote_def)

lemma fst_call_operation: "fst (call_operation operation d svc) = [operation_request operation d]"
  by (simp add: call_operation_request)

lemma method_of_write:
  "is_write operation \<Longrightarrow>
     opt_method (snd (operation_request operation d)) = Some ''POST'' \<or>
     opt_method (snd (operation_request operation d)) = Some ''DELETE''"
  by (cases operation) (simp_all add: is_write_def)

lemma method_of_read:
  "\<not> is_write operation \<Longrightarrow> opt_method (snd (operation_request operation d)) = None"
  by (cases operation) (simp_all add: is_write_def no_options_def)

lemma fetch_late:
  "late n \<Longrightarrow> fetch_body opts n = Inl abort_error"
  by (cases n) (auto simp: fetch_body_def)

lemma fetchWithTimeout_late:
  "late (svc (url, opts)) \<Longrightarrow>
     snd (fetchWithTimeout url opts svc) =
       Inl (new_Error ''Error: Request took longer than 5 seconds'')"
  by (simp add: fetchWithTimeout_def fetch_late abort_error_def)

lemma fetchWithTimeout_bad_status:
  "svc (url, opts) = Responds t r \<Longrightarrow> t < timeout_ms \<Longrightarrow> status r < 200 \<or> 300 < status r \<Longrightarrow>
     snd (fetchWithTimeout url opts svc) = Inl (new_Error ''Something went wrong'')"
  by (auto simp: fetchWithTimeout_def fetch_body_def new_Error_def)

lemma fetchWithTimeout_write:
  "svc (url, opts) = Responds t r \<Longrightarrow> t < timeout_ms \<Longrightarrow> 200 \<le> status r \<Longrightarrow> status r \<le> 300 \<Longrightarrow>
     opt_method opts = Some ''POST'' \<or> opt_method opts = Some ''DELETE'' \<Longrightarrow>
     snd (fetchWithTimeout url opts svc) = Inr (Handle r)"
  by (auto simp: fetchWithTimeout_def fetch_body_def)

lemma fetchWithTimeout_read:
  "svc (url, opts) = Responds t r \<Longrightarrow> t < timeout_ms \<Longrightarrow> 200 \<le> status r \<Longrightarrow> status r \<le> 300 \<Longrightarrow>
     opt_method opts = None \<Longrightarrow> resp_body r = Decoded data \<Longrightarrow>
     snd (fetchWithTimeout url opts svc) = Inr (Data data)"
  by (auto simp: fetchWithTimeout_def fetch_body_def response_json_data_def)

lemma fetchWithTimeout_unreadable:
  "svc (url, opts) = Responds t r \<Longrightarrow> t < timeout_ms \<Longrightarrow> 200 \<le> status r \<Longrightarrow> status r \<le> 300 \<Longrightarrow>
     opt_method opts = None \<Longrightarrow> resp_body r = Unreadable e \<Longrightarrow> err_name e \<noteq> ''AbortError'' \<Longrightarrow>
     snd (fetchWithTimeout url opts svc) = Inl e"
  by (auto simp: fetchWithTimeout_def fetch_body_def response_json_data_def)

lemma fetchWithTimeout_fails:
  "svc (url, opts) = Fails t e \<Longrightarrow> t < timeout_ms \<Longrightarrow> err_name e \<noteq> ''AbortError'' \<Longrightarrow>
     snd (fetchWithTimeout url opts svc) = Inl e"
  by (auto simp: fetchWithTimeout_def fetch_body_def)

section \<open>Facts about the views and the Coordinator\<close>

lemmas example_defs =
  answering_def silent_def slow_archive_def listing_def garbled_def marked_syntax_error_def
  page_ready_def page_active_pending_def new_view_def note_older_def note_newer_def

lemmas coordinator_defs =
  on_intent_def handleNoteOperation_def notifyAndWaitForUpdate_def notifyUpdateComplete_def
  restore_def getButttonTextForOperation_def refetch_settles_at_def fetchNotes_def
  fetchArchivedNotes_def render_active_def render_archive_def showLoading_def hideLoading_def
  make_item_def

lemma is_idle_simps [simp]:
  "is_idle (Idle b l)" "\<not> is_idle (Busy b)" "\<not> is_idle (Sent r)" "\<not> is_idle (Alerted m)"
  "\<not> is_idle (Logged x)" "\<not> is_idle (Dispatched s)" "\<not> is_idle (Refetched v)"
  by (simp_all add: is_idle_def)

lemma is_refresh_request_simps [simp]:
  "is_refresh_request (Dispatched (NotesUpdated c))" "\<not> is_refresh_request (Dispatched NotesUpdateComplete)"
  "\<not> is_refresh_request (Idle b l)" "\<not> is_refresh_request (Busy b)" "\<not> is_refresh_request (Sent r)"
  "\<not> is_refresh_request (Alerted m)" "\<not> is_refresh_request (Logged x)" "\<not> is_refresh_request (Refetched v)"
  by (simp_all add: is_refresh_request_def)

lemma is_message_simps [simp]:
  "is_message (Alerted m)" "is_message (Logged x)"
  by (simp_all add: is_message_def)

lemma message_not_idle: "is_message e \<Longrightarrow> \<not> is_idle e"
  by (cases e) (simp_all add: is_message_def)


lemma message_not_refetched: "is_message e \<Longrightarrow> e \<noteq> Refetched v"
  by (cases e) (simp_all add: is_message_def)

lemma fetchNotes_messages:
  "fetchNotes svc v = (reqs, v', evs) \<Longrightarrow> \<forall>e\<in>set evs. is_message e"
  by (auto simp: fetchNotes_def split: prod.splits sum.splits option.splits)

lemma fetchArchivedNotes_messages:
  "fetchArchivedNotes svc v = (reqs, v', evs) \<Longrightarrow> \<forall>e\<in>set evs. is_message e"
  by (auto simp: fetchArchivedNotes_def split: prod.splits sum.splits option.splits)

lemma messages_filter_idle: "\<forall>e\<in>set evs. is_message e \<Longrightarrow> filter is_idle evs = []"
  by (induction evs) (auto dest: message_not_idle)


lemma messages_count_refetched: "\<forall>e\<in>set evs. is_message e \<Longrightarrow> count_list evs (Refetched v) = 0"
  by (induction evs) (auto dest: message_not_refetched)

lemma before_idle_Cons:
  "before_idle (e # evs) = (if is_idle e then [] else e # before_idle evs)"
  by (simp add: before_idle_def)

lemma messages_before_idle:
  "\<forall>e\<in>set evs. is_message e \<Longrightarrow> before_idle (evs @ rest) = evs @ before_idle rest"
  by (induction evs) (auto simp: before_idle_def dest: message_not_idle)

lemma before_idle_Sent: "before_idle (map Sent rs @ evs) = map Sent rs @ before_idle evs"
  by (induction rs) (simp_all add: before_idle_Cons)

lemma count_Sent_refetched: "count_list (map Sent rs) (Refetched v) = 0"
  by (induction rs) simp_all


lemma filter_refresh_Sent: "filter is_refresh_request (map Sent rs) = []"
  by (induction rs) simp_all

lemma concat_Sent:
  "concat (map (\<lambda>v. map Sent (f v)) vs) = map Sent (concat (map f vs))"
  by (induction vs) simp_all

lemma hideLoading_idle:
  "hideLoading c l = \<lparr>text_content = l, has_spinner = False, disabled = False\<rparr>"
  by (cases c) (simp add: hideLoading_def)

lemma restores_simps [simp]:
  "restores b (Idle c l) = (c = b)" "\<not> restores b (Busy c)" "\<not> restores b (Sent r)"
  "\<not> restores b (Alerted m)" "\<not> restores b (Logged x)" "\<not> restores b (Dispatched s)"
  "\<not> restores b (Refetched v)"
  by (simp_all add: restores_def)


lemma messages_filter_restores: "\<forall>e\<in>set evs. is_message e \<Longrightarrow> filter (restores b) evs = []"
proof (induction evs)
  case Nil
  show ?case by simp
next
  case (Cons e evs)
  then show ?case by (cases e) (simp_all add: is_message_def)
qed

text \<open>The restorations owed to a list of waiting calls.\<close>

lemma restorations_append: "restorations (ws @ ws') = restorations ws @ restorations ws'"
  by (induction ws rule: restorations.induct) simp_all

lemma restorations_idle: "filter is_idle (restorations ws) = restorations ws"
  by (induction ws rule: restorations.induct) simp_all


lemma restorations_before_idle:
  "restorations ws \<noteq> [] \<Longrightarrow> before_idle (restorations ws @ evs) = []"
  by (induction ws rule: restorations.induct) (simp_all add: before_idle_Cons)


text \<open>What \<^verbatim>\<open>restore\<close>, \<^verbatim>\<open>resume\<close> and \<^verbatim>\<open>notifyUpdateComplete\<close> change.\<close>

lemma snd_restore: "snd (restore button operation p) = restorations [(button, operation)]"
  by (cases button) (simp_all add: restore_def Let_def)

lemma restore_keeps [simp]:
  "active (fst (restore button operation p)) = active p"
  "archive (fst (restore button operation p)) = archive p"
  "listeners (fst (restore button operation p)) = listeners p"
  "waiting (fst (restore button operation p)) = waiting p"
  by (cases button; simp add: restore_def Let_def)+


lemma snd_resume: "snd (resume ws p) = restorations ws"
proof (induction ws arbitrary: p)
  case Nil
  show ?case by simp
next
  case (Cons w ws)
  have "restorations (w # ws) = restorations [(fst w, snd w)] @ restorations ws"
    by (cases w; cases "fst w") simp_all
  then show ?case
    using Cons.IH by (simp add: split_beta snd_restore)
qed

lemma resume_keeps [simp]:
  "active (fst (resume ws p)) = active p \<and> archive (fst (resume ws p)) = archive p \<and>
   listeners (fst (resume ws p)) = listeners p \<and> waiting (fst (resume ws p)) = waiting p"
  by (induction ws arbitrary: p) (simp_all add: split_beta)


lemma snd_notifyUpdateComplete:
  "snd (notifyUpdateComplete p) = Dispatched NotesUpdateComplete # restorations (waiting p)"
  by (simp add: notifyUpdateComplete_def split_beta snd_resume)

lemma notifyUpdateComplete_keeps [simp]:
  "active (fst (notifyUpdateComplete p)) = active p"
  "archive (fst (notifyUpdateComplete p)) = archive p"
  "listeners (fst (notifyUpdateComplete p)) = listeners p"
  "waiting (fst (notifyUpdateComplete p)) = []"
  by (simp_all add: notifyUpdateComplete_def split_beta)





lemma settle_views_idle:
  "filter is_idle (snd (settle_views svc vs p)) =
     (if ActiveView \<in> set vs then restorations (waiting p) else [])"
proof (induction vs arbitrary: p)
  case Nil
  show ?case by simp
next
  case (Cons v vs)
  show ?case
  proof (cases v)
    case ActiveView
    obtain reqs v' evs where f: "fetchNotes svc (active p) = (reqs, v', evs)"
      by (cases "fetchNotes svc (active p)") auto
    have m: "\<forall>e\<in>set evs. is_message e"
      using f by (rule fetchNotes_messages)
    show ?thesis
      using ActiveView f messages_filter_idle [OF m] Cons.IH
      by (simp add: split_beta snd_notifyUpdateComplete restorations_idle)
  next
    case ArchiveView
    obtain reqs v' evs where f: "fetchArchivedNotes svc (archive p) = (reqs, v', evs)"
      by (cases "fetchArchivedNotes svc (archive p)") auto
    have m: "\<forall>e\<in>set evs. is_message e"
      using f by (rule fetchArchivedNotes_messages)
    show ?thesis
      using ArchiveView f messages_filter_idle [OF m] Cons.IH
      by (simp add: split_beta)
  qed
qed

lemma settle_views_before_idle:
  "restorations (waiting p) \<noteq> [] \<Longrightarrow>
     count_list (before_idle (snd (settle_views svc vs p))) (Refetched ActiveView) =
       (if ActiveView \<in> set vs then 1 else 0)"
proof (induction vs arbitrary: p)
  case Nil
  show ?case by (simp add: before_idle_def)
next
  case (Cons v vs)
  show ?case
  proof (cases v)
    case ActiveView
    obtain reqs v' evs where f: "fetchNotes svc (active p) = (reqs, v', evs)"
      by (cases "fetchNotes svc (active p)") auto
    have m: "\<forall>e\<in>set evs. is_message e"
      using f by (rule fetchNotes_messages)
    show ?thesis
      using ActiveView f messages_count_refetched [OF m] Cons.prems
      by (simp add: messages_before_idle [OF m] split_beta before_idle_Cons
            snd_notifyUpdateComplete restorations_before_idle)
  next
    case ArchiveView
    obtain reqs v' evs where f: "fetchArchivedNotes svc (archive p) = (reqs, v', evs)"
      by (cases "fetchArchivedNotes svc (archive p)") auto
    have m: "\<forall>e\<in>set evs. is_message e"
      using f by (rule fetchArchivedNotes_messages)
    show ?thesis
      using ArchiveView f messages_count_refetched [OF m] Cons.prems
        Cons.IH [of "p\<lparr>archive := v'\<rparr>"]
      by (simp add: messages_before_idle [OF m] before_idle_Cons split_beta)
  qed
qed



text \<open>The run of an intent, in the two branches of \<^verbatim>\<open>handleNoteOperation\<close>.\<close>

lemma on_intent_failure:
  assumes "intent_call i = (d, operation, Some b)"
    and "snd (call_operation operation d svc) = Inl e"
  shows "snd (on_intent i svc p) =
           Busy b # map Sent (fst (call_operation operation d svc))
             @ [Alerted (err_message e), Idle b (getButttonTextForOperation operation)]"
    and "controls (fst (on_intent i svc p)) b =
           hideLoading (showLoading (controls p b)) (getButttonTextForOperation operation)"
    and "waiting (fst (on_intent i svc p)) = waiting p"
  using assms
  by (cases "call_operation operation d svc";
      simp add: on_intent_def handleNoteOperation_def restore_def Let_def)+

lemma on_intent_success:
  assumes "intent_call i = (d, operation, Some b)"
    and "snd (call_operation operation d svc) = Inr x"
  shows "snd (on_intent i svc p) =
           Busy b # map Sent (fst (call_operation operation d svc))
             @ Dispatched (NotesUpdated (Some b))
             # map Sent (concat (map (refetch_requests svc) (listeners p)))
             @ snd (settle_views svc (sort_key (refetch_settles_at svc) (listeners p))
                     (p\<lparr>controls := (controls p)(b := showLoading (controls p b)),
                        waiting := waiting p @ [(Some b, operation)]\<rparr>))"
    and "fst (on_intent i svc p) =
           fst (settle_views svc (sort_key (refetch_settles_at svc) (listeners p))
                 (p\<lparr>controls := (controls p)(b := showLoading (controls p b)),
                    waiting := waiting p @ [(Some b, operation)]\<rparr>))"
  using assms
  by (cases "call_operation operation d svc";
      simp add: on_intent_def handleNoteOperation_def notifyAndWaitForUpdate_def split_beta
        concat_Sent)+



lemma created_slowly:
  "snd (call_operation Op_createNote d slow_archive) =
     Inr (Handle (listing 200 [note_older, note_newer]))"
  by (simp add: gateway_defs slow_archive_def listing_def)



lemma most_recent_first_rev:
  "oldest_first ns \<Longrightarrow> most_recent_first (map make_item (rev ns))"
  by (simp add: oldest_first_def most_recent_first_def sorted_wrt_map sorted_wrt_rev make_item_def)

lemma digits_50: "digits 50 = ''50''"
  by (simp add: digits.simps)

section \<open>The claims\<close>

subsection \<open>The window of accepted status codes\<close>

text \<open>
  Claim C4. For every Gateway operation whose request is answered in time: a response with
  status code exactly 300 is accepted as success (a write operation returns the response,
  a read operation returns the data decoded from its body), while a response with a status
  code strictly below 200 or strictly above 300, such as 199 or 301, makes the call fail
  with the generic error \<^verbatim>\<open>Something is error\<close>.
\<close>

theorem gateway_status_window:
  assumes "fst (call_operation operation d svc) = [req]"
    and "svc req = Responds t r" and "t < timeout_ms"
  shows "(status r = 300 \<and> is_write operation \<longrightarrow>
            snd (call_operation operation d svc) = Inr (Handle r)) \<and>
         (status r = 300 \<and> \<not> is_write operation \<longrightarrow>
            (\<forall>data. resp_body r = Decoded data \<longrightarrow>
               snd (call_operation operation d svc) = Inr (Data data))) \<and>
         (status r < 200 \<or> 300 < status r \<longrightarrow>
            snd (call_operation operation d svc) = Inl (new_Error ''Something is error''))"
proof -
  let ?url = "fst (operation_request operation d)"
  let ?opts = "snd (operation_request operation d)"
  from assms(1) have req: "req = (?url, ?opts)"
    by (simp add: fst_call_operation)
  with assms(2) have net: "svc (?url, ?opts) = Responds t r"
    by simp
  have w: "snd (call_operation operation d svc) = Inr (Handle r)"
    if "status r = 300" "is_write operation"
    using that net assms(3) method_of_write [of operation d]
      fetchWithTimeout_write [of svc ?url ?opts t r]
    by (simp add: call_operation_request snd_rethrow)
  have rd: "snd (call_operation operation d svc) = Inr (Data data)"
    if "status r = 300" "\<not> is_write operation" "resp_body r = Decoded data" for data
    using that net assms(3) method_of_read [of operation d]
      fetchWithTimeout_read [of svc ?url ?opts t r data]
    by (simp add: call_operation_request snd_rethrow)
  have bad: "snd (call_operation operation d svc) = Inl (new_Error ''Something is error'')"
    if "status r < 200 \<or> 300 < status r"
    using that net assms(3) fetchWithTimeout_bad_status [of svc ?url ?opts t r]
    by (simp add: call_operation_request snd_rethrow new_Error_def)
  from w rd bad show ?thesis by blast
qed

theorem gateway_status_window_witness:
  "snd (deleteNote (NoteId ''notes-1'') (answering 120 (listing 300 []))) =
     Inr (Handle (listing 300 [])) \<and>
   snd (getActiveNote (answering 120 (listing 300 [note_older]))) =
     Inr (Data (Some [note_older])) \<and>
   snd (createNote (NewNote [0x41] [0x61]) (answering 120 (listing 199 []))) =
     Inl (new_Error ''Something is error'') \<and>
   snd (getArchiveNote (answering 120 (listing 301 []))) =
     Inl (new_Error ''Something is error'')"
proof -
  note window = gateway_status_window [OF fst_call_operation]
  have in_time: "(120::nat) < timeout_ms"
    by (simp add: timeout_ms_def)
  have "snd (call_operation Op_deleteNote (NoteId ''notes-1'') (answering 120 (listing 300 []))) =
      Inr (Handle (listing 300 []))"
    using window [of "answering 120 (listing 300 [])" Op_deleteNote "NoteId ''notes-1''" 120
        "listing 300 []"] in_time
    by (simp add: answering_def listing_def is_write_def del: call_operation.simps)
  moreover have "snd (call_operation Op_getActiveNote (NoteId []) (answering 120 (listing 300 [note_older]))) =
      Inr (Data (Some [note_older]))"
    using window [of "answering 120 (listing 300 [note_older])" Op_getActiveNote "NoteId []" 120
        "listing 300 [note_older]"] in_time
    by (simp add: answering_def listing_def is_write_def del: call_operation.simps)
  moreover have "snd (call_operation Op_createNote (NewNote [0x41] [0x61]) (answering 120 (listing 199 []))) =
      Inl (new_Error ''Something is error'')"
    using window [of "answering 120 (listing 199 [])" Op_createNote "NewNote [0x41] [0x61]" 120
        "listing 199 []"] in_time
    by (simp add: answering_def listing_def del: call_operation.simps)
  moreover have "snd (call_operation Op_getArchiveNote (NoteId []) (answering 120 (listing 301 []))) =
      Inl (new_Error ''Something is error'')"
    using window [of "answering 120 (listing 301 [])" Op_getArchiveNote "NoteId []" 120
        "listing 301 []"] in_time
    by (simp add: answering_def listing_def del: call_operation.simps)
  ultimately show ?thesis by simp
qed

subsection \<open>What the operations return\<close>

subsection \<open>What the operations return\<close>

text \<open>
  Claim C6. Every call of a Gateway operation issues exactly one request. When the request
  is answered in time with an accepted status code, the four write operations return the
  response itself, whatever its body is and without decoding it, and the two read
  operations return the \<^verbatim>\<open>data\<close> decoded from the body.
\<close>

theorem reads_decode_writes_hand_back_response:
  "\<exists>req. fst (call_operation operation d svc) = [req] \<and>
     (\<forall>t r. svc req = Responds t r \<and> t < timeout_ms \<and> 200 \<le> status r \<and> status r \<le> 300 \<longrightarrow>
        (is_write operation \<longrightarrow> snd (call_operation operation d svc) = Inr (Handle r)) \<and>
        (\<not> is_write operation \<longrightarrow>
           (\<forall>data. resp_body r = Decoded data \<longrightarrow>
              snd (call_operation operation d svc) = Inr (Data data))))"
proof -
  let ?url = "fst (operation_request operation d)"
  let ?opts = "snd (operation_request operation d)"
  have "snd (call_operation operation d svc) = Inr (Handle r)"
    if "svc (?url, ?opts) = Responds t r" "t < timeout_ms" "200 \<le> status r" "status r \<le> 300"
      "is_write operation" for t r
    using that method_of_write [of operation d] fetchWithTimeout_write [of svc ?url ?opts t r]
    by (simp add: call_operation_request snd_rethrow)
  moreover have "snd (call_operation operation d svc) = Inr (Data data)"
    if "svc (?url, ?opts) = Responds t r" "t < timeout_ms" "200 \<le> status r" "status r \<le> 300"
      "\<not> is_write operation" "resp_body r = Decoded data" for t r data
    using that method_of_read [of operation d] fetchWithTimeout_read [of svc ?url ?opts t r data]
    by (simp add: call_operation_request snd_rethrow)
  ultimately show ?thesis
    by (intro exI [of _ "operation_request operation d"]) (simp add: fst_call_operation)
qed

theorem reads_decode_writes_hand_back_response_witness:
  "snd (createNote (NewNote [0x41] [0x61]) (answering 80 garbled)) = Inr (Handle garbled) \<and>
   length (fst (createNote (NewNote [0x41] [0x61]) (answering 80 garbled))) = 1 \<and>
   snd (getArchiveNote (answering 80 (listing 200 [note_older]))) =
     Inr (Data (Some [note_older]))"
proof -
  have in_time: "(80::nat) < timeout_ms"
    by (simp add: timeout_ms_def)
  have "snd (call_operation Op_createNote (NewNote [0x41] [0x61]) (answering 80 garbled)) =
      Inr (Handle garbled) \<and>
    length (fst (call_operation Op_createNote (NewNote [0x41] [0x61]) (answering 80 garbled))) = 1"
    using reads_decode_writes_hand_back_response [of Op_createNote "NewNote [0x41] [0x61]"
        "answering 80 garbled"] in_time
    by (auto simp: answering_def garbled_def is_write_def simp del: call_operation.simps)
  moreover have "snd (call_operation Op_getArchiveNote (NoteId [])
      (answering 80 (listing 200 [note_older]))) = Inr (Data (Some [note_older]))"
    using reads_decode_writes_hand_back_response [of Op_getArchiveNote "NoteId []"
        "answering 80 (listing 200 [note_older])"] in_time
    by (auto simp: answering_def listing_def is_write_def simp del: call_operation.simps)
  ultimately show ?thesis by simp
qed

subsection \<open>Timeouts and other failures\<close>

subsection \<open>Timeouts and other failures\<close>

text \<open>
  Claim C5. Every Gateway operation fails with the timeout error when nothing arrives
  within 5000 ms, and rethrows every other failure (of the transport, of the status code,
  of the decoding of the body) as the generic error; this is also what the comment on
  each operation says: \<^verbatim>\<open>Throws timeout error or generic error message\<close>. The code breaks
  it. A request for the active notes that is answered after 10 milliseconds, with status
  200 and the plain text \<^verbatim>\<open>Request took longer\<close> as its body, is no timeout; V8 quotes the
  text in the message of the SyntaxError with which the decoding fails, \<^verbatim>\<open>getActiveNote\<close>
  finds the mark of a timeout in that message and throws the SyntaxError on as it is,
  which is neither the timeout error nor the generic one.
\<close>

theorem unreadable_body_passes_for_timeout:
  "snd (getActiveNote (answering 10 garbled)) = Inl marked_syntax_error \<and>
   marked_syntax_error \<noteq> new_Error ''Something is error'' \<and>
   marked_syntax_error \<noteq> new_Error ''Error: Request took longer than 5 seconds'' \<and>
   \<not> late (answering 10 garbled (BASE_URL @ ''/notes'', no_options))"
  by (simp add: gateway_defs example_defs)

text \<open>
  What the operations do where the two string tests do not misfire: a request that gets
  nothing within 5000 ms is aborted, \<^verbatim>\<open>fetchWithTimeout\<close> throws the error whose message
  is \<^verbatim>\<open>Error: Request took longer than 5 seconds\<close>, the operation throws that same error
  on, and the control that raised the intent is made idle again, as the last thing that
  happens; the other failures become \<^verbatim>\<open>Something is error\<close> when the error is not named
  \<^verbatim>\<open>AbortError\<close> and its message does not contain \<^verbatim>\<open>Request took longer\<close>.
\<close>

lemma timeout_and_plain_failures:
  assumes "fst (call_operation operation d svc) = [req]"
  shows
    "(late (svc req) \<longrightarrow>
        fetch_with_signal timeout_ms (svc req) = Inl abort_error \<and>
        snd (fetchWithTimeout (fst req) (snd req) svc) =
          Inl (new_Error ''Error: Request took longer than 5 seconds'') \<and>
        snd (call_operation operation d svc) = snd (fetchWithTimeout (fst req) (snd req) svc) \<and>
        js_includes (err_message (new_Error ''Error: Request took longer than 5 seconds''))
          ''Request took longer'' \<and>
        (\<forall>i b p. intent_call i = (d, operation, Some b) \<longrightarrow>
           \<not> disabled (controls (fst (on_intent i svc p)) b) \<and>
           last (snd (on_intent i svc p)) = Idle b (getButttonTextForOperation operation))) \<and>
     (\<forall>t e. svc req = Fails t e \<and> t < timeout_ms \<and> err_name e \<noteq> ''AbortError'' \<and>
          \<not> js_includes (err_message e) ''Request took longer'' \<longrightarrow>
        snd (call_operation operation d svc) = Inl (new_Error ''Something is error'')) \<and>
     (\<forall>t r. svc req = Responds t r \<and> t < timeout_ms \<and> (status r < 200 \<or> 300 < status r) \<longrightarrow>
        snd (call_operation operation d svc) = Inl (new_Error ''Something is error'')) \<and>
     (\<forall>t r e. svc req = Responds t r \<and> t < timeout_ms \<and> 200 \<le> status r \<and> status r \<le> 300 \<and>
          \<not> is_write operation \<and> resp_body r = Unreadable e \<and> err_name e \<noteq> ''AbortError'' \<and>
          \<not> js_includes (err_message e) ''Request took longer'' \<longrightarrow>
        snd (call_operation operation d svc) = Inl (new_Error ''Something is error''))"
proof -
  let ?url = "fst (operation_request operation d)"
  let ?opts = "snd (operation_request operation d)"
  let ?timeout = "new_Error ''Error: Request took longer than 5 seconds''"
  from assms have req: "req = (?url, ?opts)"
    by (simp add: fst_call_operation)
  have marked: "js_includes (err_message ?timeout) ''Request took longer''"
    by (simp add: new_Error_def)
  have late: "fetch_with_signal timeout_ms (svc req) = Inl abort_error \<and>
        snd (fetchWithTimeout (fst req) (snd req) svc) = Inl ?timeout \<and>
        snd (call_operation operation d svc) = snd (fetchWithTimeout (fst req) (snd req) svc) \<and>
        js_includes (err_message ?timeout) ''Request took longer'' \<and>
        (\<forall>i b p. intent_call i = (d, operation, Some b) \<longrightarrow>
           \<not> disabled (controls (fst (on_intent i svc p)) b) \<and>
           last (snd (on_intent i svc p)) = Idle b (getButttonTextForOperation operation))"
    if l: "late (svc req)"
  proof -
    have 1: "fetch_with_signal timeout_ms (svc req) = Inl abort_error"
      using l by (cases "svc req") auto
    have 2: "snd (fetchWithTimeout (fst req) (snd req) svc) = Inl ?timeout"
      using l fetchWithTimeout_late [of svc ?url ?opts] by (simp add: req)
    have 3: "snd (call_operation operation d svc) = Inl ?timeout"
      using 2 marked by (simp add: call_operation_request snd_rethrow req)
    have 4: "\<not> disabled (controls (fst (on_intent i svc p)) b) \<and>
           last (snd (on_intent i svc p)) = Idle b (getButttonTextForOperation operation)"
      if "intent_call i = (d, operation, Some b)" for i b p
      using on_intent_failure(1,2) [OF that 3, of p] by (simp add: hideLoading_def)
    from 1 2 3 4 marked show ?thesis by simp
  qed
  have fails: "snd (call_operation operation d svc) = Inl (new_Error ''Something is error'')"
    if "svc req = Fails t e" "t < timeout_ms" "err_name e \<noteq> ''AbortError''"
      "\<not> js_includes (err_message e) ''Request took longer''" for t e
    using that fetchWithTimeout_fails [of svc ?url ?opts t e]
    by (simp add: call_operation_request snd_rethrow req)
  have status: "snd (call_operation operation d svc) = Inl (new_Error ''Something is error'')"
    if "svc req = Responds t r" "t < timeout_ms" "status r < 200 \<or> 300 < status r" for t r
    using that fetchWithTimeout_bad_status [of svc ?url ?opts t r]
    by (simp add: call_operation_request snd_rethrow req new_Error_def)
  have body: "snd (call_operation operation d svc) = Inl (new_Error ''Something is error'')"
    if "svc req = Responds t r" "t < timeout_ms" "200 \<le> status r" "status r \<le> 300"
      "\<not> is_write operation" "resp_body r = Unreadable e" "err_name e \<noteq> ''AbortError''"
      "\<not> js_includes (err_message e) ''Request took longer''" for t r e
    using that method_of_read [of operation d] fetchWithTimeout_unreadable [of svc ?url ?opts t r e]
    by (simp add: call_operation_request snd_rethrow req)
  from late fails status body show ?thesis by blast
qed

subsection \<open>The refresh after a write\<close>

text \<open>
  Claim C1, as it is stated, fails: it says that both views have completed their re-fetch
  before the control is made idle. With both views listening and the list of archived
  notes answered after 20 milliseconds, the list of active notes after 10, the control is
  idle again while the archived-set view is still fetching.
\<close>

theorem archived_view_still_fetching_when_idle:
  "snd (createNote (NewNote [0x41] [0x61]) slow_archive) =
     Inr (Handle (listing 200 [note_older, note_newer])) \<and>
   snd (on_intent (NoteCreated [0x41] [0x61] (Some SubmitButton)) slow_archive page_ready) =
     [Busy SubmitButton,
      Sent (BASE_URL @ ''/notes'',
        \<lparr>opt_method = Some ''POST'', opt_headers = json_headers,
         opt_body = Some (NewNote [0x41] [0x61])\<rparr>),
      Dispatched (NotesUpdated (Some SubmitButton)),
      Sent (BASE_URL @ ''/notes'', no_options),
      Sent (BASE_URL @ ''/notes/archived'', no_options),
      Refetched ActiveView,
      Dispatched NotesUpdateComplete,
      Idle SubmitButton ''Make Note'',
      Refetched ArchiveView] \<and>
   count_list (before_idle (snd (on_intent (NoteCreated [0x41] [0x61] (Some SubmitButton))
     slow_archive page_ready))) (Refetched ArchiveView) = 0"
  by (simp add: gateway_defs example_defs coordinator_defs before_idle_def Let_def split_beta)

text \<open>
  Claim C1, amended. After a successful Gateway call for an intent, with the active-set
  view listening for the refresh signal: the active-set view has completed exactly one
  re-fetch before the control is made idle, the control is made idle, and by then the
  archived-set view, if it listens, has sent its request; whether that request has
  settled is left open.
\<close>

theorem active_view_refetched_before_idle:
  assumes "intent_call i = (d, operation, Some b)"
    and "snd (call_operation operation d svc) = Inr x"
    and "ActiveView \<in> set (listeners p)"
  shows "count_list (before_idle (snd (on_intent i svc p))) (Refetched ActiveView) = 1 \<and>
         Idle b (getButttonTextForOperation operation) \<in> set (snd (on_intent i svc p)) \<and>
         (ArchiveView \<in> set (listeners p) \<longrightarrow>
            (\<forall>r\<in>set (refetch_requests svc ArchiveView).
               Sent r \<in> set (before_idle (snd (on_intent i svc p)))))"
proof -
  let ?l = "getButttonTextForOperation operation"
  let ?p = "p\<lparr>controls := (controls p)(b := showLoading (controls p b)),
              waiting := waiting p @ [(Some b, operation)]\<rparr>"
  let ?settled = "snd (settle_views svc (sort_key (refetch_settles_at svc) (listeners p)) ?p)"
  let ?issued = "concat (map (refetch_requests svc) (listeners p))"
  have owed: "restorations (waiting ?p) = restorations (waiting p) @ [Idle b ?l]"
    by (simp add: restorations_append)
  then have somebody: "restorations (waiting ?p) \<noteq> []"
    by simp
  have tr: "snd (on_intent i svc p) =
          Busy b # map Sent (fst (call_operation operation d svc))
            @ Dispatched (NotesUpdated (Some b)) # map Sent ?issued @ ?settled"
    using on_intent_success(1) [OF assms(1,2)] by simp
  have bi: "before_idle (snd (on_intent i svc p)) =
          Busy b # map Sent (fst (call_operation operation d svc))
            @ Dispatched (NotesUpdated (Some b)) # map Sent ?issued @ before_idle ?settled"
    by (simp add: tr before_idle_Cons before_idle_Sent)
  have "count_list (before_idle ?settled) (Refetched ActiveView) = 1"
    using assms(3) settle_views_before_idle [OF somebody] by simp
  then have one: "count_list (before_idle (snd (on_intent i svc p))) (Refetched ActiveView) = 1"
    by (simp add: bi count_Sent_refetched)
  have "filter is_idle ?settled = restorations (waiting p) @ [Idle b ?l]"
    using assms(3) owed by (simp add: settle_views_idle)
  then have "Idle b ?l \<in> set (filter is_idle ?settled)"
    by simp
  then have idle: "Idle b ?l \<in> set (snd (on_intent i svc p))"
    by (simp add: tr)
  have sent: "Sent r \<in> set (before_idle (snd (on_intent i svc p)))"
    if "ArchiveView \<in> set (listeners p)" "r \<in> set (refetch_requests svc ArchiveView)" for r
  proof -
    from that have "r \<in> set ?issued"
      by (simp del: refetch_requests.simps) blast
    then show ?thesis by (simp add: bi)
  qed
  from one idle sent show ?thesis by blast
qed

theorem active_view_refetched_before_idle_witness:
  "count_list (before_idle (snd (on_intent (NoteCreated [0x41] [0x61] (Some SubmitButton))
      slow_archive page_ready))) (Refetched ActiveView) = 1 \<and>
   Idle SubmitButton ''Make Note'' \<in>
     set (snd (on_intent (NoteCreated [0x41] [0x61] (Some SubmitButton)) slow_archive page_ready)) \<and>
   Sent (BASE_URL @ ''/notes/archived'', no_options) \<in>
     set (before_idle (snd (on_intent (NoteCreated [0x41] [0x61] (Some SubmitButton))
       slow_archive page_ready)))"
proof -
  have call: "intent_call (NoteCreated [0x41] [0x61] (Some SubmitButton)) =
      (NewNote [0x41] [0x61], Op_createNote, Some SubmitButton)"
    by simp
  have listens: "ActiveView \<in> set (listeners page_ready)"
    by (simp add: page_ready_def)
  have archive_listens: "ArchiveView \<in> set (listeners page_ready)"
    by (simp add: page_ready_def)
  have request: "(BASE_URL @ ''/notes/archived'', no_options) \<in>
      set (refetch_requests slow_archive ArchiveView)"
    by (simp add: getArchiveNote_def)
  from active_view_refetched_before_idle [OF call created_slowly listens]
    archive_listens request
  show ?thesis
    by (simp add: getButttonTextForOperation_def del: refetch_requests.simps)
qed

text \<open>
  Claim C2, as it is stated, fails: it says that the refresh protocol is run after a
  failed Gateway call as well. A creation that times out is followed by the alert and the
  restoring of the control only; neither signal is dispatched.
\<close>

theorem failed_create_is_not_followed_by_refresh:
  "snd (createNote (NewNote [0x41] [0x61]) silent) =
     Inl (new_Error ''Error: Request took longer than 5 seconds'') \<and>
   snd (on_intent (NoteCreated [0x41] [0x61] (Some SubmitButton)) silent page_ready) =
     [Busy SubmitButton,
      Sent (BASE_URL @ ''/notes'',
        \<lparr>opt_method = Some ''POST'', opt_headers = json_headers,
         opt_body = Some (NewNote [0x41] [0x61])\<rparr>),
      Alerted ''Error: Request took longer than 5 seconds'',
      Idle SubmitButton ''Make Note''] \<and>
   Dispatched (NotesUpdated (Some SubmitButton)) \<notin>
     set (snd (on_intent (NoteCreated [0x41] [0x61] (Some SubmitButton)) silent page_ready)) \<and>
   Dispatched NotesUpdateComplete \<notin>
     set (snd (on_intent (NoteCreated [0x41] [0x61] (Some SubmitButton)) silent page_ready))"
  by (simp add: gateway_defs example_defs coordinator_defs Let_def split_beta)

text \<open>
  Claim C2, amended. For each of the four intents, when the Gateway call fails, the
  Coordinator alerts the message of the error and makes the control idle with the text
  that \<^verbatim>\<open>getButttonTextForOperation\<close> gives for the operation; the refresh signal is not
  dispatched and nothing is waited for.
\<close>

theorem failed_call_restores_without_refresh:
  assumes "intent_call i = (d, operation, Some b)"
    and "snd (call_operation operation d svc) = Inl e"
  shows "snd (on_intent i svc p) =
           Busy b # map Sent (fst (call_operation operation d svc))
             @ [Alerted (err_message e), Idle b (getButttonTextForOperation operation)] \<and>
         filter is_refresh_request (snd (on_intent i svc p)) = [] \<and>
         controls (fst (on_intent i svc p)) b =
           hideLoading (showLoading (controls p b)) (getButttonTextForOperation operation)"
  using on_intent_failure [OF assms]
  by (simp add: filter_refresh_Sent)

theorem failed_call_restores_without_refresh_witness:
  "snd (on_intent (NoteDeleted ''notes-1'' (Some (DeleteButton ''notes-1''))) silent page_ready) =
     [Busy (DeleteButton ''notes-1''),
      Sent (BASE_URL @ ''/notes/notes-1'',
        \<lparr>opt_method = Some ''DELETE'', opt_headers = json_headers, opt_body = None\<rparr>),
      Alerted ''Error: Request took longer than 5 seconds'',
      Idle (DeleteButton ''notes-1'') ''Delete''] \<and>
   controls (fst (on_intent (NoteDeleted ''notes-1'' (Some (DeleteButton ''notes-1'')))
       silent page_ready)) (DeleteButton ''notes-1'') =
     \<lparr>text_content = ''Delete'', has_spinner = False, disabled = False\<rparr>"
proof -
  have call: "intent_call (NoteDeleted ''notes-1'' (Some (DeleteButton ''notes-1''))) =
      (NoteId ''notes-1'', Op_deleteNote, Some (DeleteButton ''notes-1''))"
    by simp
  have failed: "snd (call_operation Op_deleteNote (NoteId ''notes-1'') silent) =
      Inl (new_Error ''Error: Request took longer than 5 seconds'')"
    by (simp add: gateway_defs silent_def)
  from failed_call_restores_without_refresh [OF call failed, of page_ready]
  show ?thesis
    by (simp add: fst_call_operation getButttonTextForOperation_def new_Error_def
          hideLoading_idle del: call_operation.simps)
qed




subsection \<open>The label of the restored control\<close>



subsection \<open>The List Views\<close>

text \<open>
  Claim C7, as it is stated, fails: it says that both views show the most recently created
  note first. Neither view sorts. The archived-set view shows the notes in the order of
  the response, so a response with the older note first is shown with the older note
  first; the active-set view reverses the response, so a response with the newer note
  first is shown with the older note first.
\<close>

theorem views_do_not_sort:
  "rendered_items (fst (snd (fetchArchivedNotes
      (answering 10 (listing 200 [note_older, note_newer])) new_view))) =
     [make_item note_older, make_item note_newer] \<and>
   \<not> most_recent_first (rendered_items (fst (snd (fetchArchivedNotes
      (answering 10 (listing 200 [note_older, note_newer])) new_view)))) \<and>
   rendered_items (fst (snd (fetchNotes
      (answering 10 (listing 200 [note_newer, note_older])) new_view))) =
     [make_item note_older, make_item note_newer] \<and>
   \<not> most_recent_first (rendered_items (fst (snd (fetchNotes
      (answering 10 (listing 200 [note_newer, note_older])) new_view))))"
  by (simp add: gateway_defs example_defs coordinator_defs Let_def split_beta rendered_items_def
        most_recent_first_def)

text \<open>
  Claim C7, amended. After a successful fetch no message is shown, and each view shows
  exactly one item view for each note of the response, and the placeholder
  \<^verbatim>\<open>There is no note\<close> exactly when the response is empty. The active-set view shows the
  notes in the reverse of the order of the response, hence the most recently created
  first whenever the response lists the oldest first. The order in the archived-set view
  is left open here.
\<close>

theorem list_views_render_every_note:
  "(snd (getActiveNote svc) = Inr (Data (Some ns)) \<longrightarrow>
      snd (snd (fetchNotes svc v)) = [] \<and>
      container (shadow_root (fst (snd (fetchNotes svc v)))) = Some (map make_item (rev ns)) \<and>
      empty_message (shadow_root (fst (snd (fetchNotes svc v)))) =
        (if ns = [] then Some ''There is no note'' else None) \<and>
      (oldest_first ns \<longrightarrow> most_recent_first (rendered_items (fst (snd (fetchNotes svc v)))))) \<and>
   (snd (getArchiveNote svc) = Inr (Data (Some ns)) \<longrightarrow>
      snd (snd (fetchArchivedNotes svc v)) = [] \<and>
      mset (rendered_items (fst (snd (fetchArchivedNotes svc v)))) = mset (map make_item ns) \<and>
      empty_message (shadow_root (fst (snd (fetchArchivedNotes svc v)))) =
        (if ns = [] then Some ''There is no note'' else None))"
proof -
  have a: "snd (snd (fetchNotes svc v)) = [] \<and>
      container (shadow_root (fst (snd (fetchNotes svc v)))) = Some (map make_item (rev ns)) \<and>
      empty_message (shadow_root (fst (snd (fetchNotes svc v)))) =
        (if ns = [] then Some ''There is no note'' else None) \<and>
      (oldest_first ns \<longrightarrow> most_recent_first (rendered_items (fst (snd (fetchNotes svc v)))))"
    if "snd (getActiveNote svc) = Inr (Data (Some ns))"
    using that
    by (cases "getActiveNote svc")
       (simp add: fetchNotes_def render_active_def rendered_items_def most_recent_first_rev)
  have b: "snd (snd (fetchArchivedNotes svc v)) = [] \<and>
      mset (rendered_items (fst (snd (fetchArchivedNotes svc v)))) = mset (map make_item ns) \<and>
      empty_message (shadow_root (fst (snd (fetchArchivedNotes svc v)))) =
        (if ns = [] then Some ''There is no note'' else None)"
    if "snd (getArchiveNote svc) = Inr (Data (Some ns))"
    using that
    by (cases "getArchiveNote svc")
       (simp add: fetchArchivedNotes_def render_archive_def rendered_items_def)
  from a b show ?thesis by blast
qed

theorem list_views_render_every_note_witness:
  "rendered_items (fst (snd (fetchNotes
      (answering 10 (listing 200 [note_older, note_newer])) new_view))) =
     [make_item note_newer, make_item note_older] \<and>
   most_recent_first (rendered_items (fst (snd (fetchNotes
      (answering 10 (listing 200 [note_older, note_newer])) new_view)))) \<and>
   empty_message (shadow_root (fst (snd (fetchNotes
      (answering 10 (listing 200 [note_older, note_newer])) new_view)))) = None \<and>
   mset (rendered_items (fst (snd (fetchArchivedNotes
      (answering 10 (listing 200 [note_older, note_newer])) new_view)))) =
     {#make_item note_older, make_item note_newer#} \<and>
   empty_message (shadow_root (fst (snd (fetchArchivedNotes
      (answering 10 (listing 200 [])) new_view)))) = Some ''There is no note'' \<and>
   rendered_items (fst (snd (fetchArchivedNotes (answering 10 (listing 200 [])) new_view))) = []"
proof -
  have active: "snd (getActiveNote (answering 10 (listing 200 [note_older, note_newer]))) =
      Inr (Data (Some [note_older, note_newer]))"
    by (simp add: gateway_defs answering_def listing_def)
  have archive: "snd (getArchiveNote (answering 10 (listing 200 ns))) = Inr (Data (Some ns))" for ns
    by (simp add: gateway_defs answering_def listing_def)
  have sorted: "oldest_first [note_older, note_newer]"
    by (simp add: oldest_first_def note_older_def note_newer_def)
  have shown: "container (shadow_root (fst (snd (fetchNotes
        (answering 10 (listing 200 [note_older, note_newer])) new_view)))) =
      Some [make_item note_newer, make_item note_older] \<and>
    most_recent_first (rendered_items (fst (snd (fetchNotes
      (answering 10 (listing 200 [note_older, note_newer])) new_view)))) \<and>
    empty_message (shadow_root (fst (snd (fetchNotes
      (answering 10 (listing 200 [note_older, note_newer])) new_view)))) = None"
    using active sorted
      list_views_render_every_note [of "answering 10 (listing 200 [note_older, note_newer])"
        "[note_older, note_newer]" new_view]
    by simp
  have archived: "mset (rendered_items (fst (snd (fetchArchivedNotes
        (answering 10 (listing 200 [note_older, note_newer])) new_view)))) =
      {#make_item note_older, make_item note_newer#}"
    using archive [of "[note_older, note_newer]"]
      list_views_render_every_note [of "answering 10 (listing 200 [note_older, note_newer])"
        "[note_older, note_newer]" new_view]
    by simp
  have empty: "empty_message (shadow_root (fst (snd (fetchArchivedNotes
        (answering 10 (listing 200 [])) new_view)))) = Some ''There is no note'' \<and>
    rendered_items (fst (snd (fetchArchivedNotes (answering 10 (listing 200 [])) new_view))) = []"
    using archive [of "[]"]
      list_views_render_every_note [of "answering 10 (listing 200 [])" "[]" new_view]
    by simp
  have "rendered_items (fst (snd (fetchNotes
      (answering 10 (listing 200 [note_older, note_newer])) new_view))) =
     [make_item note_newer, make_item note_older]"
    using shown by (simp add: rendered_items_def)
  with shown archived empty show ?thesis
    by simp
qed

text \<open>
  Claim C10. In both views a fetch that fails leaves the view as it was: \<^verbatim>\<open>_notes\<close> and the
  rendered content are those from before the fetch. The active-set view alerts the message
  of the error, the archived-set view logs the error.
\<close>

theorem failed_fetch_keeps_view:
  "(snd (getActiveNote svc) = Inl e \<longrightarrow>
      fetchNotes svc v = (fst (getActiveNote svc), v, [Alerted (err_message e)])) \<and>
   (snd (getArchiveNote svc) = Inl e \<longrightarrow>
      fetchArchivedNotes svc v = (fst (getArchiveNote svc), v, [Logged e]))"
  by (cases "getActiveNote svc"; cases "getArchiveNote svc")
     (simp add: fetchNotes_def fetchArchivedNotes_def)

subsection \<open>The Creation Form\<close>

theorem failed_fetch_keeps_view_witness:
  "fetchNotes silent new_view =
     ([(BASE_URL @ ''/notes'', no_options)], new_view,
      [Alerted ''Error: Request took longer than 5 seconds'']) \<and>
   fetchArchivedNotes (answering 10 (listing 500 [])) new_view =
     ([(BASE_URL @ ''/notes/archived'', no_options)], new_view,
      [Logged (new_Error ''Something is error'')])"
proof -
  have active: "getActiveNote silent =
      ([(BASE_URL @ ''/notes'', no_options)],
       Inl (new_Error ''Error: Request took longer than 5 seconds''))"
    by (simp add: gateway_defs silent_def)
  have archive: "getArchiveNote (answering 10 (listing 500 [])) =
      ([(BASE_URL @ ''/notes/archived'', no_options)], Inl (new_Error ''Something is error''))"
    by (simp add: gateway_defs answering_def listing_def)
  from active archive
    failed_fetch_keeps_view [of silent "new_Error ''Error: Request took longer than 5 seconds''"
      new_view]
    failed_fetch_keeps_view [of "answering 10 (listing 500 [])"
      "new_Error ''Something is error''" new_view]
  show ?thesis
    by (simp add: new_Error_def)
qed

subsection \<open>The Creation Form\<close>

text \<open>
  Claim C8. On blur the error text of the title is non-empty exactly when the trimmed title
  has fewer than 3 characters, and the error text of the body exactly when the trimmed body
  has fewer than 10. Whatever the form holds, a submit prevents the default action,
  dispatches one \<^verbatim>\<open>note-created\<close> event with the title, the body and the submit button,
  empties both fields and sets the counter to \<^verbatim>\<open>Remaining Character: 50\<close>.
\<close>

theorem creation_form_validates_but_always_submits:
  "(titleError (on_title_blur f) \<noteq> [] \<longleftrightarrow> length (trim (titleInput f)) < 3) \<and>
   (bodyError (on_content_blur f) \<noteq> [] \<longleftrightarrow> length (trim (contentInput f)) < 10) \<and>
   default_prevented (handleFormSubmit f) \<and>
   dispatched (handleFormSubmit f) =
     [NoteCreated (titleInput f) (contentInput f) (Some SubmitButton)] \<and>
   titleInput (form_after (handleFormSubmit f)) = [] \<and>
   contentInput (form_after (handleFormSubmit f)) = [] \<and>
   charCountSpan (form_after (handleFormSubmit f)) = ''Remaining Character: 50''"
  by (simp add: on_title_blur_def on_content_blur_def validateTitle_def validateContent_def
        titleMinLength_def contentMinLength_def handleFormSubmit_def updateCharacterCount_def
        maxTitleLength_def number_text_def digits_50)

theorem creation_form_validates_but_always_submits_witness:
  "titleError (on_title_blur form_ab) \<noteq> [] \<and>
   dispatched (handleFormSubmit (on_title_blur form_ab)) =
     [NoteCreated [0x61, 0x62] [] (Some SubmitButton)] \<and>
   charCountSpan (form_after (handleFormSubmit (on_title_blur form_ab))) =
     ''Remaining Character: 50''"
proof -
  have short: "length (trim (titleInput form_ab)) < 3"
    by (simp add: form_ab_def rendered_form_def trim_def is_js_space_def)
  from short creation_form_validates_but_always_submits [of form_ab]
    creation_form_validates_but_always_submits [of "on_title_blur form_ab"]
  show ?thesis
    by (simp add: on_title_blur_def validateTitle_def form_ab_def rendered_form_def)
qed

end
